theory Spec2Isabelle
  imports Complex_Main
begin

section \<open>Conventions of the embedding\<close>

text \<open>
  The services are Express handlers over Mongoose collections. Each handler is a pure
  function from the request, the collection and the values the handler draws from its
  surroundings (\<open>uuidv4()\<close>, \<open>Math.random()\<close>, \<open>new Date()\<close>, whether the database
  answers) to the HTTP response and the new collection.

  \<^item> A JavaScript Number is a \<open>real\<close>: arithmetic is exact, the rounding of IEEE doubles
    is outside the model. \<open>Math.round x\<close> is \<open>\<lfloor>x + 1/2\<rfloor>\<close>.
  \<^item> A field that may be \<open>undefined\<close> is an \<open>option\<close>; a request body is read at the
    types of the schema it feeds, except where a handler computes with a body value
    before Mongoose casts it: such a value is a \<open>jsval\<close> (a number, a string, \<open>null\<close> or
    absent) and the handler's operators coerce it as JavaScript does.
  \<^item> A \<open>Date\<close> is a number of milliseconds (\<open>nat\<close>).
  \<^item> A collection is the list of its documents in insertion order.
  \<^item> \<open>env\<close> holds what a handler draws from outside: \<open>db_ok\<close> (the database
    answers; otherwise the driver throws), \<open>now\<close>, \<open>random\<close> (\<open>Math.random()\<close>),
    \<open>uuid_a\<close> and \<open>uuid_b\<close> (the results of \<open>uuidv4()\<close>, in call order), \<open>objectid\<close>
    (the \<open>_id\<close> a new document gets), \<open>tail\<close> (the part of a generated order number
    after \<open>ECO-\<close>: the clock and six random characters), \<open>channel_up\<close> (the AMQP
    channel exists), and \<open>parseNumber\<close> and \<open>renderNumber\<close> (the conversions of the
    JavaScript runtime between strings and numbers, outside the part of them that is
    written out below).
  \<^item> An exception inside a handler's \<open>try\<close> reaches its \<open>catch\<close>, which answers 500 and
    writes nothing.
  \<^item> What a handler prints is kept as a list of lines; the line of a \<open>catch\<close> keeps its
    fixed text and leaves out the error object printed after it.
\<close>

record env =
  db_ok :: bool
  now :: nat
  random :: real
  uuid_a :: string
  uuid_b :: string
  objectid :: nat
  tail :: string
  channel_up :: bool
  parseNumber :: "string \<Rightarrow> real option"
  renderNumber :: "real \<Rightarrow> string"

datatype 'a response = Response (code: nat) (success: bool) (info: string) (payload: "'a option")

definition truthy_str :: "string option \<Rightarrow> bool" where
  "truthy_str s = (case s of None \<Rightarrow> False | Some v \<Rightarrow> v \<noteq> [])"

definition truthy_num :: "real option \<Rightarrow> bool" where
  "truthy_num n = (case n of None \<Rightarrow> False | Some v \<Rightarrow> v \<noteq> 0)"

definition or_str :: "string option \<Rightarrow> string option \<Rightarrow> string option" where
  "or_str a b = (if truthy_str a then a else b)"

definition math_round :: "real \<Rightarrow> real" where
  "math_round x = of_int \<lfloor>x + 1 / 2\<rfloor>"

subsection \<open>JavaScript values and their coercions\<close>

text \<open>
  A value a handler computes with: a number, the number \<open>NaN\<close>, a string, \<open>null\<close> or
  \<open>undefined\<close>. The conversions between strings and numbers are written out where they
  are plain: a string of at most 15 decimal digits is the number it spells
  (\<open>Number("0200")\<close> is 200), and a whole number from 0 up to \<open>10^21\<close> prints as its
  decimal digits. Everywhere else they are the runtime's, taken from \<open>env\<close>; \<open>None\<close>
  stands for \<open>NaN\<close>.
\<close>

datatype jsval = Num real | NaN | Str string | Null | Undefined

definition is_digit :: "char \<Rightarrow> bool" where
  "is_digit c = (c \<in> set ''0123456789'')"

definition digit_value :: "char \<Rightarrow> nat" where
  "digit_value c = length (takeWhile (\<lambda>d. d \<noteq> c) ''0123456789'')"

definition decimal_value :: "string \<Rightarrow> nat" where
  "decimal_value s = foldl (\<lambda>n c. 10 * n + digit_value c) 0 s"

definition digit_char :: "nat \<Rightarrow> char" where
  "digit_char d = ''0123456789'' ! d"

fun decimal :: "nat \<Rightarrow> string" where
  "decimal n = (if n < 10 then [digit_char n] else decimal (n div 10) @ [digit_char (n mod 10)])"

declare decimal.simps [simp del]

definition string_to_number :: "env \<Rightarrow> string \<Rightarrow> real option" where
  "string_to_number e s =
     (if s \<noteq> [] \<and> length s \<le> 15 \<and> list_all is_digit s then Some (real (decimal_value s))
      else parseNumber e s)"

definition number_to_string :: "env \<Rightarrow> real \<Rightarrow> string" where
  "number_to_string e x =
     (if 0 \<le> x \<and> x < 10 ^ 21 \<and> x = of_int \<lfloor>x\<rfloor> then decimal (nat \<lfloor>x\<rfloor>)
      else renderNumber e x)"

text \<open>\<open>ToNumber\<close> and \<open>ToString\<close>.\<close>

definition to_number :: "env \<Rightarrow> jsval \<Rightarrow> real option" where
  "to_number e v =
     (case v of Num x \<Rightarrow> Some x | NaN \<Rightarrow> None | Str s \<Rightarrow> string_to_number e s
      | Null \<Rightarrow> Some 0 | Undefined \<Rightarrow> None)"

definition to_string :: "env \<Rightarrow> jsval \<Rightarrow> string" where
  "to_string e v =
     (case v of Num x \<Rightarrow> number_to_string e x | NaN \<Rightarrow> ''NaN'' | Str s \<Rightarrow> s
      | Null \<Rightarrow> ''null'' | Undefined \<Rightarrow> ''undefined'')"

definition is_string :: "jsval \<Rightarrow> bool" where
  "is_string v = (case v of Str s \<Rightarrow> True | _ \<Rightarrow> False)"

text \<open>
  The operator \<open>+\<close>: when either operand is a string it concatenates the two as
  strings, otherwise it adds them as numbers.
\<close>

definition js_plus :: "env \<Rightarrow> jsval \<Rightarrow> jsval \<Rightarrow> jsval" where
  "js_plus e a b =
     (if is_string a \<or> is_string b then Str (to_string e a @ to_string e b)
      else case (to_number e a, to_number e b) of
             (Some x, Some y) \<Rightarrow> Num (x + y)
           | _ \<Rightarrow> NaN)"

text \<open>
  Mongoose's cast of a value to a schema path of type Number that is required: the
  empty string, \<open>null\<close> and \<open>undefined\<close> leave the path empty, which \<open>required\<close> refuses;
  a string is converted by \<open>Number\<close>; \<open>NaN\<close> is a cast error. \<open>None\<close> is a failed
  validation.
\<close>

definition cast_number :: "env \<Rightarrow> jsval \<Rightarrow> real option" where
  "cast_number e v =
     (case v of Num x \<Rightarrow> Some x | NaN \<Rightarrow> None
      | Str s \<Rightarrow> (if s = [] then None else string_to_number e s)
      | Null \<Rightarrow> None | Undefined \<Rightarrow> None)"


section \<open>Payment service (payment-service/src/index.js)\<close>

subsection \<open>The Payment schema\<close>

record gateway_response =
  evidence :: "(string \<times> string) list"
  mockStatus :: string
  transactionId :: string
  processedAt :: nat

record payment =
  paymentId :: string
  orderId :: string
  userId :: string
  amount :: real
  currency :: string
  payMethod :: string
  status :: string
  gatewayResponse :: "gateway_response option"
  cardLast4 :: "string option"
  upiId :: "string option"
  refundAmount :: "real option"
  refundReason :: "string option"
  refundedAt :: "nat option"
  createdAt :: nat
  updatedAt :: nat

definition method_enum :: "string list" where
  "method_enum = [''card'', ''upi'', ''netbanking'', ''wallet'', ''cod'']"

definition status_enum :: "string list" where
  "status_enum = [''initiated'', ''processing'', ''completed'', ''failed'', ''refunded'', ''cancelled'']"

record pay_state =
  payments :: "payment list"
  console :: "string list"

text \<open>\<open>Payment.findOne({ paymentId })\<close>: the first document with that id.\<close>

definition findOne :: "string \<Rightarrow> payment list \<Rightarrow> payment option" where
  "findOne pid ps = find (\<lambda>p. paymentId p = pid) ps"

text \<open>
  \<open>payment.save()\<close> on a document that \<open>findOne\<close> returned: the document found, the
  first with its \<open>paymentId\<close>, is replaced. The handlers below change only \<open>status\<close>,
  \<open>gatewayResponse\<close> and the refund fields, to values the schema accepts, so the
  validation that \<open>save\<close> runs on the modified paths passes.
\<close>

fun save_payment :: "payment \<Rightarrow> payment list \<Rightarrow> payment list" where
  "save_payment p [] = []"
| "save_payment p (q # qs) =
     (if paymentId q = paymentId p then p # qs else q # save_payment p qs)"

subsection \<open>POST /initiate\<close>

record initiate_req =
  i_orderId :: "string option"
  i_userId :: "string option"
  i_amount :: "real option"
  i_method :: "string option"
  i_cardNumber :: "string option"
  i_upiId :: "string option"
  i_x_user_id :: "string option"

datatype initiate_data =
  InitiateData (d_paymentId: string) (d_amount: real) (d_currency: string) (d_status: string)
    (d_gatewayPaymentId: string) (d_redirectUrl: string) (d_qrCode: "string option")

text \<open>
  \<open>Payment.create\<close> builds the document with the schema's defaults and validates it:
  \<open>orderId\<close>, \<open>userId\<close>, \<open>amount\<close> and \<open>method\<close> are required (a required string must
  not be empty) and \<open>method\<close> is one of the enum. The default \<open>paymentId\<close> is
  \<open>pay_\<close> followed by a fresh uuid without its dashes.
\<close>

definition new_payment :: "env \<Rightarrow> initiate_req \<Rightarrow> payment option" where
  "new_payment e r =
     (case (i_orderId r, or_str (i_userId r) (i_x_user_id r), i_amount r, i_method r) of
        (Some oid, Some uid, Some a, Some m) \<Rightarrow>
          if oid \<noteq> [] \<and> uid \<noteq> [] \<and> m \<in> set method_enum
          then Some \<lparr> paymentId = ''pay_'' @ filter (\<lambda>c. c \<noteq> CHR ''-'') (uuid_a e),
                      orderId = oid, userId = uid, amount = a, currency = ''INR'',
                      payMethod = m, status = ''initiated'', gatewayResponse = None,
                      cardLast4 = map_option (\<lambda>n. drop (length n - 4) n) (i_cardNumber r),
                      upiId = i_upiId r, refundAmount = None, refundReason = None,
                      refundedAt = None, createdAt = now e, updatedAt = now e \<rparr>
          else None
      | _ \<Rightarrow> None)"

definition initiate :: "env \<Rightarrow> initiate_req \<Rightarrow> pay_state \<Rightarrow> initiate_data response \<times> pay_state" where
  "initiate e r s =
     (let failed = (Response 500 False ''Failed to initiate payment'' None,
                    s\<lparr>console := console s @ [''Initiate payment error:'']\<rparr>)
      in if \<not> db_ok e then failed
         else case new_payment e r of
           None \<Rightarrow> failed
         | Some p \<Rightarrow>
             if findOne (paymentId p) (payments s) \<noteq> None then failed
             else (Response 201 True [] (Some (InitiateData (paymentId p) (amount p) (currency p)
                       (payment.status p) (''mock_'' @ uuid_b e)
                       (''http://localhost:3000/payment-success?paymentId='' @ paymentId p)
                       (if i_method r = Some ''upi''
                        then Some ''upi://pay?pa=ecoharvest@upi&pn=EcoHarvest'' else None))),
                   s\<lparr>payments := payments s @ [p],
                     console := console s @
                       [''Payment initiated: '' @ paymentId p @ '' for order '' @ orderId p]\<rparr>))"

subsection \<open>POST /confirm\<close>

record confirm_req =
  c_paymentId :: string
  c_gatewayResponse :: "(string \<times> string) list"

datatype confirm_data =
  ConfirmData (cd_paymentId: string) (cd_orderId: string) (cd_status: string) (cd_amount: real)
    (cd_transactionId: string)

definition isSuccess :: "env \<Rightarrow> bool" where
  "isSuccess e = (random e > 1 / 10)"

definition confirm :: "env \<Rightarrow> confirm_req \<Rightarrow> pay_state \<Rightarrow> confirm_data response \<times> pay_state" where
  "confirm e r s =
     (if \<not> db_ok e
      then (Response 500 False ''Failed to confirm payment'' None,
            s\<lparr>console := console s @ [''Confirm payment error:'']\<rparr>)
      else case findOne (c_paymentId r) (payments s) of
        None \<Rightarrow> (Response 404 False ''Payment not found'' None, s)
      | Some p \<Rightarrow>
          let p' = p\<lparr> payment.status := (if isSuccess e then ''completed'' else ''failed''),
                      gatewayResponse := Some
                        \<lparr> evidence = filter (\<lambda>kv. fst kv \<notin> {''mockStatus'', ''transactionId'', ''processedAt''})
                                       (c_gatewayResponse r),
                          mockStatus = (if isSuccess e then ''SUCCESS'' else ''FAILED''),
                          transactionId = ''txn_'' @ uuid_a e,
                          processedAt = now e \<rparr>,
                      updatedAt := now e \<rparr>
          in (Response 200 (isSuccess e)
                (if isSuccess e then ''Payment successful'' else ''Payment failed'')
                (Some (ConfirmData (paymentId p') (orderId p') (payment.status p') (amount p')
                         (''txn_'' @ uuid_a e))),
              s\<lparr>payments := save_payment p' (payments s),
                console := console s @
                  [''Payment '' @ (if isSuccess e then ''completed'' else ''failed'') @ '': ''
                     @ c_paymentId r]\<rparr>))"

subsection \<open>POST /:paymentId/refund\<close>

record refund_req =
  r_reason :: "string option"
  r_amount :: "real option"

datatype refund_data = RefundData (rd_paymentId: string) (rd_refundAmount: real) (rd_status: string)

text \<open>\<open>amount || payment.amount\<close>: the requested amount when it is truthy.\<close>

definition refund_amount :: "real option \<Rightarrow> payment \<Rightarrow> real" where
  "refund_amount a p = (case a of None \<Rightarrow> amount p | Some v \<Rightarrow> if v \<noteq> 0 then v else amount p)"

definition refund :: "env \<Rightarrow> string \<Rightarrow> refund_req \<Rightarrow> pay_state \<Rightarrow> refund_data response \<times> pay_state" where
  "refund e pid r s =
     (if \<not> db_ok e
      then (Response 500 False ''Failed to process refund'' None,
            s\<lparr>console := console s @ [''Refund error:'']\<rparr>)
      else case findOne pid (payments s) of
        None \<Rightarrow> (Response 404 False ''Payment not found'' None, s)
      | Some p \<Rightarrow>
          if payment.status p \<noteq> ''completed''
          then (Response 400 False ''Only completed payments can be refunded'' None, s)
          else
            let p' = p\<lparr> payment.status := ''refunded'',
                        refundAmount := Some (refund_amount (r_amount r) p),
                        refundReason := r_reason r,
                        refundedAt := Some (now e),
                        updatedAt := now e \<rparr>
            in (Response 200 True ''Refund processed successfully''
                  (Some (RefundData (paymentId p') (refund_amount (r_amount r) p) (payment.status p'))),
                s\<lparr>payments := save_payment p' (payments s),
                  console := console s @
                    [''Payment refunded: '' @ pid @ '', amount: ''
                       @ number_to_string e (refund_amount (r_amount r) p)]\<rparr>))"


text \<open>
  Concrete values used to run the handlers. The runs below convert digit strings and
  whole numbers only, so the two runtime conversions of \<open>env0\<close> are never reached and
  are left trivial.
\<close>

definition env0 :: env where
  "env0 = \<lparr> db_ok = True, now = 1000, random = 1 / 2,
            uuid_a = ''3f2a-77'', uuid_b = ''9c1d-04'', objectid = 7, tail = ''1000-K3X9QZ'',
            channel_up = True, parseNumber = (\<lambda>s. None), renderNumber = (\<lambda>x. []) \<rparr>"

definition pay0 :: payment where
  "pay0 = \<lparr> paymentId = ''pay_1'', orderId = ''ord_1'', userId = ''u1'', amount = 100,
            currency = ''INR'', payMethod = ''card'', status = ''completed'',
            gatewayResponse = None, cardLast4 = None, upiId = None, refundAmount = None,
            refundReason = None, refundedAt = None, createdAt = 10, updatedAt = 20 \<rparr>"

definition st0 :: pay_state where
  "st0 = \<lparr> payments = [pay0], console = [] \<rparr>"

definition pay1 :: payment where
  "pay1 = pay0\<lparr> status := ''initiated'' \<rparr>"

definition st1 :: pay_state where
  "st1 = \<lparr> payments = [pay1], console = [] \<rparr>"

definition env1 :: env where
  "env1 = env0\<lparr> random := 1 / 20, uuid_a := ''5b8e-21'' \<rparr>"

definition confirm0 :: confirm_req where
  "confirm0 = \<lparr> c_paymentId = ''pay_1'', c_gatewayResponse = [(''gatewayPaymentId'', ''mock_9c1d-04'')] \<rparr>"

definition init0 :: initiate_req where
  "init0 = \<lparr> i_orderId = Some ''ord_1'', i_userId = Some ''u1'', i_amount = Some 100,
             i_method = Some ''card'', i_cardNumber = Some ''4111111111111111'', i_upiId = None,
             i_x_user_id = None \<rparr>"


section \<open>Order service (order-service/src)\<close>

subsection \<open>The Order schema (models/order.model.js)\<close>

record order_item =
  productId :: string
  productName :: string
  productImage :: "string option"
  vendorId :: string
  vendorName :: "string option"
  quantity :: real
  price :: real
  discount :: real
  subtotal :: real

record address =
  fullName :: string
  phone :: string
  street :: string
  city :: string
  state :: "string option"
  postalCode :: "string option"
  country :: "string option"

record order =
  order_oid :: nat
  orderNumber :: string
  customerId :: string
  customerEmail :: "string option"
  customerName :: "string option"
  items :: "order_item list"
  shippingAddress :: "address option"
  billingAddress :: "address option"
  subtotal :: real
  shippingCost :: real
  tax :: real
  discount :: real
  totalAmount :: real
  status :: string
  paymentMethod :: string
  paymentStatus :: string
  paymentId :: "string option"
  orderTime :: nat
  confirmedAt :: "nat option"
  shippedAt :: "nat option"
  deliveredAt :: "nat option"
  cancelledAt :: "nat option"
  trackingNumber :: "string option"
  carrier :: "string option"
  estimatedDelivery :: "nat option"
  order_notes :: "string option"
  cancellationReason :: "string option"
  createdAt :: nat
  updatedAt :: nat

definition order_status_enum :: "string list" where
  "order_status_enum = [''Pending'', ''Pending Payment'', ''Confirmed'', ''Processing'', ''Shipped'',
     ''Out for Delivery'', ''Delivered'', ''Cancelled'', ''Refunded'']"

definition paymentMethod_enum :: "string list" where
  "paymentMethod_enum = [''cod'', ''card'', ''upi'', ''netbanking'', ''wallet'']"

record ord_state =
  orders :: "order list"
  log :: "string list"

text \<open>
  A route parameter \<open>:id\<close> goes through Mongoose's cast to ObjectId: a string that is
  not an ObjectId makes \<open>findById\<close> throw a CastError, which the handler's \<open>catch\<close>
  turns into 500.
\<close>

datatype route_id = NotAnObjectId | ObjectId nat

definition findById :: "nat \<Rightarrow> order list \<Rightarrow> order option" where
  "findById i os = find (\<lambda>x. order_oid x = i) os"

fun save_order :: "order \<Rightarrow> order list \<Rightarrow> order list" where
  "save_order x [] = []"
| "save_order x (y # ys) =
     (if order_oid y = order_oid x then x # ys else y # save_order x ys)"

subsection \<open>POST / (create order)\<close>

text \<open>
  An item of the request body. The handler adds \<open>item.subtotal\<close> as it arrives, before
  Mongoose casts it, so it is a \<open>jsval\<close>; the other fields reach the schema untouched
  and are read at its types.
\<close>

record item_req =
  b_productId :: string
  b_productName :: string
  b_productImage :: "string option"
  b_vendorId :: string
  b_vendorName :: "string option"
  b_quantity :: real
  b_price :: real
  b_discount :: "real option"
  b_subtotal :: jsval

record create_req =
  q_customerId :: "string option"
  q_customerEmail :: "string option"
  q_customerName :: "string option"
  q_items :: "item_req list option"
  q_shippingAddress :: "address option"
  q_billingAddress :: "address option"
  q_paymentMethod :: "string option"
  q_notes :: "string option"
  q_x_user_id :: "string option"

text \<open>
  \<open>items.reduce((sum, item) => sum + item.subtotal, 0)\<close> and the totals after it, with
  the operators of JavaScript: \<open>+\<close> concatenates once a string is involved, \<open>>\<close> and
  \<open>*\<close> convert their operand to a number, a comparison with \<open>NaN\<close> is false and
  \<open>Math.round\<close> of \<open>NaN\<close> is \<open>NaN\<close>.
\<close>

definition calc_subtotal :: "env \<Rightarrow> item_req list \<Rightarrow> jsval" where
  "calc_subtotal e its = foldl (\<lambda>sum item. js_plus e sum (b_subtotal item)) (Num 0) its"

definition calc_shippingCost :: "env \<Rightarrow> jsval \<Rightarrow> real" where
  "calc_shippingCost e sub =
     (case to_number e sub of None \<Rightarrow> 50 | Some x \<Rightarrow> if x > 500 then 0 else 50)"

definition calc_tax :: "env \<Rightarrow> jsval \<Rightarrow> jsval" where
  "calc_tax e sub =
     (case to_number e sub of None \<Rightarrow> NaN | Some x \<Rightarrow> Num (math_round (x * (18 / 100))))"

definition calc_totalAmount :: "env \<Rightarrow> jsval \<Rightarrow> jsval" where
  "calc_totalAmount e sub =
     js_plus e (js_plus e sub (Num (calc_shippingCost e sub))) (calc_tax e sub)"

text \<open>
  The validators of the schema that \<open>Order.create\<close> runs on the new document: required
  strings are not empty, an item's quantity is at least 1, the payment method is one
  of the enum, and every computed value and item subtotal casts to a Number. An
  item's discount defaults to 0.
\<close>

definition cast_item :: "env \<Rightarrow> item_req \<Rightarrow> order_item option" where
  "cast_item e b =
     (case cast_number e (b_subtotal b) of
        None \<Rightarrow> None
      | Some v \<Rightarrow>
          if b_productId b \<noteq> [] \<and> b_productName b \<noteq> [] \<and> b_vendorId b \<noteq> [] \<and> b_quantity b \<ge> 1
          then Some \<lparr> productId = b_productId b, productName = b_productName b,
                      productImage = b_productImage b, vendorId = b_vendorId b,
                      vendorName = b_vendorName b, quantity = b_quantity b, price = b_price b,
                      discount = (case b_discount b of None \<Rightarrow> 0 | Some d \<Rightarrow> d),
                      subtotal = v \<rparr>
          else None)"

definition cast_items :: "env \<Rightarrow> item_req list \<Rightarrow> order_item list option" where
  "cast_items e its = those (map (cast_item e) its)"

definition valid_address :: "address option \<Rightarrow> bool" where
  "valid_address a = (case a of None \<Rightarrow> True
     | Some v \<Rightarrow> fullName v \<noteq> [] \<and> phone v \<noteq> [] \<and> street v \<noteq> [] \<and> city v \<noteq> [])"

definition default_country :: "address option \<Rightarrow> address option" where
  "default_country a = map_option
     (\<lambda>v. v\<lparr>country := (case country v of None \<Rightarrow> Some ''India'' | Some c \<Rightarrow> Some c)\<rparr>) a"

definition new_order :: "env \<Rightarrow> create_req \<Rightarrow> item_req list \<Rightarrow> order option" where
  "new_order e r its =
     (let pm = (case q_paymentMethod r of None \<Rightarrow> ''cod'' | Some m \<Rightarrow> m);
          billing = (case q_billingAddress r of None \<Rightarrow> q_shippingAddress r | Some b \<Rightarrow> Some b);
          sub = calc_subtotal e its
      in case (or_str (q_customerId r) (q_x_user_id r), cast_items e its, cast_number e sub,
               cast_number e (calc_tax e sub), cast_number e (calc_totalAmount e sub)) of
           (Some cid, Some stored, Some sub', Some tax', Some total') \<Rightarrow>
             if cid \<noteq> [] \<and> valid_address (q_shippingAddress r)
                \<and> valid_address billing \<and> pm \<in> set paymentMethod_enum
             then Some \<lparr> order_oid = objectid e, orderNumber = ''ECO-'' @ tail e,
                    customerId = cid, customerEmail = q_customerEmail r,
                    customerName = q_customerName r, items = stored,
                    shippingAddress = default_country (q_shippingAddress r),
                    billingAddress = default_country billing,
                    subtotal = sub', shippingCost = calc_shippingCost e sub, tax = tax',
                    discount = 0, totalAmount = total',
                    status = (if pm = ''cod'' then ''Confirmed'' else ''Pending Payment''),
                    paymentMethod = pm, paymentStatus = ''pending'', paymentId = None,
                    orderTime = now e, confirmedAt = None, shippedAt = None,
                    deliveredAt = None, cancelledAt = None, trackingNumber = None,
                    carrier = None, estimatedDelivery = None, order_notes = q_notes r,
                    cancellationReason = None, createdAt = now e, updatedAt = now e \<rparr>
             else None
         | _ \<Rightarrow> None)"

text \<open>
  \<open>items\<close> missing from the body makes \<open>items.reduce\<close> throw a TypeError. The unique
  index on \<open>orderNumber\<close> and the primary key refuse a duplicate.
\<close>

definition create_order :: "env \<Rightarrow> create_req \<Rightarrow> ord_state \<Rightarrow> order response \<times> ord_state" where
  "create_order e r s =
     (let failed = (Response 500 False ''Failed to create order'' None,
                    s\<lparr>log := log s @ [''Create order error:'']\<rparr>)
      in case q_items r of
           None \<Rightarrow> failed
         | Some its \<Rightarrow>
             if \<not> db_ok e then failed
             else case new_order e r its of
               None \<Rightarrow> failed
             | Some x \<Rightarrow>
                 if findById (order_oid x) (orders s) \<noteq> None
                    \<or> orderNumber x \<in> set (map orderNumber (orders s))
                 then failed
                 else (Response 201 True ''Order placed successfully'' (Some x),
                       s\<lparr>orders := orders s @ [x],
                         log := log s @ [''Order created: '' @ orderNumber x]\<rparr>))"

subsection \<open>PUT /:id/status\<close>

record status_req =
  s_status :: string
  s_trackingNumber :: "string option"
  s_carrier :: "string option"

text \<open>
  \<open>findByIdAndUpdate(id, { $set: updateData }, { new: true })\<close> writes the fields of
  \<open>updateData\<close> and nothing else; it runs no validator (\<open>runValidators\<close> is not set).
\<close>

definition apply_updateData :: "env \<Rightarrow> status_req \<Rightarrow> order \<Rightarrow> order" where
  "apply_updateData e r x =
     x\<lparr> order.status := s_status r,
        confirmedAt := (if s_status r = ''Confirmed'' then Some (now e) else confirmedAt x),
        shippedAt := (if s_status r = ''Shipped'' then Some (now e) else shippedAt x),
        trackingNumber := (if s_status r = ''Shipped'' \<and> truthy_str (s_trackingNumber r)
                           then s_trackingNumber r else trackingNumber x),
        carrier := (if s_status r = ''Shipped'' \<and> truthy_str (s_carrier r)
                    then s_carrier r else carrier x),
        deliveredAt := (if s_status r = ''Delivered'' then Some (now e) else deliveredAt x),
        cancelledAt := (if s_status r = ''Cancelled'' then Some (now e) else cancelledAt x),
        order.updatedAt := now e \<rparr>"

definition update_status :: "env \<Rightarrow> route_id \<Rightarrow> status_req \<Rightarrow> ord_state \<Rightarrow> order response \<times> ord_state" where
  "update_status e rid r s =
     (let failed = (Response 500 False ''Failed to update order'' None,
                    s\<lparr>log := log s @ [''Update status error:'']\<rparr>)
      in if \<not> db_ok e then failed
         else case rid of
           NotAnObjectId \<Rightarrow> failed
         | ObjectId i \<Rightarrow>
             (case findById i (orders s) of
                None \<Rightarrow> (Response 404 False ''Order not found'' None, s)
              | Some x \<Rightarrow>
                  (Response 200 True ''Order status updated'' (Some (apply_updateData e r x)),
                   s\<lparr>orders := save_order (apply_updateData e r x) (orders s)\<rparr>)))"

subsection \<open>POST /:id/cancel\<close>

definition not_cancellable :: "string list" where
  "not_cancellable = [''Shipped'', ''Out for Delivery'', ''Delivered'']"

definition cancel_order :: "env \<Rightarrow> route_id \<Rightarrow> string option \<Rightarrow> ord_state \<Rightarrow> order response \<times> ord_state" where
  "cancel_order e rid reason s =
     (let failed = (Response 500 False ''Failed to cancel order'' None,
                    s\<lparr>log := log s @ [''Cancel order error:'']\<rparr>)
      in if \<not> db_ok e then failed
         else case rid of
           NotAnObjectId \<Rightarrow> failed
         | ObjectId i \<Rightarrow>
             (case findById i (orders s) of
                None \<Rightarrow> (Response 404 False ''Order not found'' None, s)
              | Some x \<Rightarrow>
                  if order.status x \<in> set not_cancellable
                  then (Response 400 False ''Order cannot be cancelled at this stage'' None, s)
                  else
                    let x' = x\<lparr> order.status := ''Cancelled'', cancelledAt := Some (now e),
                                cancellationReason := reason, order.updatedAt := now e \<rparr>
                    in (Response 200 True ''Order cancelled successfully'' (Some x'),
                        s\<lparr>orders := save_order x' (orders s)\<rparr>)))"

text \<open>Concrete orders and requests used to run the handlers.\<close>

definition item0 :: order_item where
  "item0 = \<lparr> productId = ''p1'', productName = ''Honey'', productImage = None,
             vendorId = ''v1'', vendorName = None, quantity = 2, price = 100, discount = 0,
             subtotal = 200 \<rparr>"

definition body_item0 :: item_req where
  "body_item0 = \<lparr> b_productId = ''p1'', b_productName = ''Honey'', b_productImage = None,
                  b_vendorId = ''v1'', b_vendorName = None, b_quantity = 2, b_price = 100,
                  b_discount = None, b_subtotal = Num 200 \<rparr>"

definition create0 :: create_req where
  "create0 = \<lparr> q_customerId = Some ''u1'', q_customerEmail = None, q_customerName = None,
               q_items = Some [body_item0], q_shippingAddress = None, q_billingAddress = None,
               q_paymentMethod = Some ''card'', q_notes = None, q_x_user_id = None \<rparr>"

definition ord0 :: order where
  "ord0 = \<lparr> order_oid = 1, orderNumber = ''ECO-1-AAAAAA'', customerId = ''u1'',
            customerEmail = None, customerName = None, items = [item0],
            shippingAddress = None, billingAddress = None, subtotal = 200, shippingCost = 50,
            tax = 36, discount = 0, totalAmount = 286, status = ''Delivered'',
            paymentMethod = ''cod'', paymentStatus = ''pending'', paymentId = None,
            orderTime = 5, confirmedAt = None, shippedAt = None, deliveredAt = None,
            cancelledAt = None, trackingNumber = None, carrier = None,
            estimatedDelivery = None, order_notes = None, cancellationReason = None,
            createdAt = 5, updatedAt = 5 \<rparr>"

definition ost0 :: ord_state where
  "ost0 = \<lparr> orders = [ord0], log = [] \<rparr>"

definition ost_empty :: ord_state where
  "ost_empty = \<lparr> orders = [], log = [] \<rparr>"

definition created0 :: order where
  "created0 = \<lparr> order_oid = 7, orderNumber = ''ECO-1000-K3X9QZ'', customerId = ''u1'',
            customerEmail = None, customerName = None, items = [item0],
            shippingAddress = None, billingAddress = None, subtotal = 200, shippingCost = 50,
            tax = 36, discount = 0, totalAmount = 286, status = ''Pending Payment'',
            paymentMethod = ''card'', paymentStatus = ''pending'', paymentId = None,
            orderTime = 1000, confirmedAt = None, shippedAt = None, deliveredAt = None,
            cancelledAt = None, trackingNumber = None, carrier = None,
            estimatedDelivery = None, order_notes = None, cancellationReason = None,
            createdAt = 1000, updatedAt = 1000 \<rparr>"

definition create_empty :: create_req where
  "create_empty = create0\<lparr> q_items := Some [] \<rparr>"

definition create_str :: create_req where
  "create_str = create0\<lparr> q_items := Some [body_item0\<lparr> b_subtotal := Str ''200'' \<rparr>] \<rparr>"

definition ord1 :: order where
  "ord1 = ord0\<lparr> order.status := ''Refunded'' \<rparr>"

definition ost1 :: ord_state where
  "ost1 = \<lparr> orders = [ord1], log = [] \<rparr>"

definition ord2 :: order where
  "ord2 = ord0\<lparr> order.status := ''Cancelled'', cancelledAt := Some 9,
                cancellationReason := Some ''changed my mind'' \<rparr>"

definition ost2 :: ord_state where
  "ost2 = \<lparr> orders = [ord2], log = [] \<rparr>"

definition status0 :: status_req where
  "status0 = \<lparr> s_status = ''Pending'', s_trackingNumber = None, s_carrier = None \<rparr>"


section \<open>Message consumer (packages/shared/messaging.js, \<open>RabbitMQ.subscribe\<close>)\<close>

text \<open>
  A message carries its delivery tag, its content (\<open>None\<close> when the bytes are not JSON:
  \<open>JSON.parse\<close> throws) and AMQP's redelivered flag. The channel holds the queue's
  ready messages in order. The operations of the AMQP channel the callback uses:
  \<open>ack\<close> settles the message; \<open>nack(msg, false, requeue)\<close> puts it back on the queue,
  at its place at the head and marked redelivered, when \<open>requeue\<close> is true, and rejects
  it otherwise (the broker then dead-letters it if the queue has a dead-letter
  exchange and drops it if not). \<open>delivered\<close> records every delivery, in order.
\<close>

record 'a message =
  tag :: nat
  content :: "'a option"
  redelivered :: bool

record 'a channel =
  ready :: "'a message list"
  acked :: "'a message list"
  rejected :: "'a message list"
  delivered :: "nat list"

definition ack :: "'a message \<Rightarrow> 'a channel \<Rightarrow> 'a channel" where
  "ack m ch = ch\<lparr>acked := acked ch @ [m]\<rparr>"

definition nack :: "'a message \<Rightarrow> bool \<Rightarrow> 'a channel \<Rightarrow> 'a channel" where
  "nack m requeue ch =
     (if requeue then ch\<lparr>ready := m\<lparr>redelivered := True\<rparr> # ready ch\<rparr>
      else ch\<lparr>rejected := rejected ch @ [m]\<rparr>)"

text \<open>
  The callback that \<open>subscribe\<close> passes to \<open>channel.consume\<close>. The handler is a
  function of its own state \<open>'h\<close> and the parsed content; it returns whether it
  completed (\<open>False\<close>: it threw) and its new state.
\<close>

definition on_message ::
  "('h \<Rightarrow> 'a \<Rightarrow> bool \<times> 'h) \<Rightarrow> 'a message \<Rightarrow> 'h \<times> 'a channel \<Rightarrow> 'h \<times> 'a channel" where
  "on_message handler m hc =
     (case content m of
        None \<Rightarrow> (fst hc, nack m True (snd hc))
      | Some c \<Rightarrow>
          (case handler (fst hc) c of
             (ok, h') \<Rightarrow> if ok then (h', ack m (snd hc)) else (h', nack m True (snd hc))))"

text \<open>The broker hands the message at the head of the queue to the callback.\<close>

definition deliver ::
  "('h \<Rightarrow> 'a \<Rightarrow> bool \<times> 'h) \<Rightarrow> 'h \<times> 'a channel \<Rightarrow> 'h \<times> 'a channel" where
  "deliver handler hc =
     (case ready (snd hc) of
        [] \<Rightarrow> hc
      | m # ms \<Rightarrow>
          on_message handler m
            (fst hc, (snd hc)\<lparr>ready := ms, delivered := delivered (snd hc) @ [tag m]\<rparr>))"

fun deliveries ::
  "nat \<Rightarrow> ('h \<Rightarrow> 'a \<Rightarrow> bool \<times> 'h) \<Rightarrow> 'h \<times> 'a channel \<Rightarrow> 'h \<times> 'a channel" where
  "deliveries 0 handler hc = hc"
| "deliveries (Suc n) handler hc = deliveries n handler (deliver handler hc)"

definition failing_handler :: "unit \<Rightarrow> string \<Rightarrow> bool \<times> unit" where
  "failing_handler h c = (False, h)"

definition msg0 :: "string message" where
  "msg0 = \<lparr> tag = 1, content = Some ''order.created'', redelivered = False \<rparr>"

definition chan0 :: "string channel" where
  "chan0 = \<lparr> ready = [msg0], acked = [], rejected = [], delivered = [] \<rparr>"


section \<open>Inventory (product-service, \<open>updateInventory\<close>)\<close>

text \<open>
  The fields of the Product schema that the handler reads or writes. The schema
  declares \<open>quantity\<close> with \<open>min: [0, 'Quantity cannot be negative']\<close>; the validator
  runs in \<open>Product.create\<close> and in \<open>updateProduct\<close>, which passes
  \<open>runValidators: true\<close>. \<open>updateInventory\<close> calls \<open>findByIdAndUpdate\<close> with
  \<open>{ new: true }\<close> only, so neither the validator nor the \<open>pre('save')\<close> hook runs.
\<close>

record product_doc =
  product_oid :: nat
  quantity :: real
  lowStockThreshold :: real
  vendorId :: string
  status :: string

definition quantity_min :: "real \<Rightarrow> bool" where
  "quantity_min q = (q \<ge> 0)"

datatype event = InventoryLow (ev_productId: nat) (ev_vendorId: string) (ev_quantity: real)

record prod_state =
  products :: "product_doc list"
  published :: "event list"

record inventory_req =
  u_quantity :: real
  u_operation :: "string option"

datatype inventory_data = InventoryData (id_quantity: real) (id_status: string)

definition find_product :: "nat \<Rightarrow> product_doc list \<Rightarrow> product_doc option" where
  "find_product i ps = find (\<lambda>x. product_oid x = i) ps"

fun save_product :: "product_doc \<Rightarrow> product_doc list \<Rightarrow> product_doc list" where
  "save_product x [] = []"
| "save_product x (y # ys) =
     (if product_oid y = product_oid x then x # ys else y # save_product x ys)"

text \<open>The update document: \<open>$inc\<close> by the quantity, by its negation, or \<open>$set\<close>.\<close>

definition apply_update :: "inventory_req \<Rightarrow> real \<Rightarrow> real" where
  "apply_update r q =
     (let operation = (case u_operation r of None \<Rightarrow> ''set'' | Some v \<Rightarrow> v)
      in if operation = ''increment'' then q + u_quantity r
         else if operation = ''decrement'' then q + (- u_quantity r)
         else u_quantity r)"

text \<open>\<open>publishEvent\<close> returns without publishing when there is no channel.\<close>

definition publishEvent :: "env \<Rightarrow> event \<Rightarrow> event list \<Rightarrow> event list" where
  "publishEvent e ev evs = (if channel_up e then evs @ [ev] else evs)"

definition updateInventory ::
  "env \<Rightarrow> route_id \<Rightarrow> inventory_req \<Rightarrow> prod_state \<Rightarrow> inventory_data response \<times> prod_state" where
  "updateInventory e rid r s =
     (let failed = (Response 500 False ''Failed to update inventory'' None, s)
      in if \<not> db_ok e then failed
         else case rid of
           NotAnObjectId \<Rightarrow> failed
         | ObjectId i \<Rightarrow>
             (case find_product i (products s) of
                None \<Rightarrow> (Response 404 False ''Product not found'' None, s)
              | Some x \<Rightarrow>
                  let x' = x\<lparr>product_doc.quantity := apply_update r (product_doc.quantity x)\<rparr>
                  in (Response 200 True ''Inventory updated''
                        (Some (InventoryData (product_doc.quantity x') (product_doc.status x'))),
                      s\<lparr>products := save_product x' (products s),
                        published :=
                          (if product_doc.quantity x' \<le> lowStockThreshold x'
                              \<and> product_doc.quantity x' > 0
                           then publishEvent e
                                  (InventoryLow (product_oid x') (product_doc.vendorId x')
                                     (product_doc.quantity x'))
                                  (published s)
                           else published s)\<rparr>)))"

definition prod0 :: product_doc where
  "prod0 = \<lparr> product_oid = 4, quantity = 3, lowStockThreshold = 10, vendorId = ''v1'',
             status = ''In Stock'' \<rparr>"

definition pst0 :: prod_state where
  "pst0 = \<lparr> products = [prod0], published = [] \<rparr>"


section \<open>Properties of the payment service\<close>

lemma findOne_paymentId: "findOne pid ps = Some p \<Longrightarrow> payment.paymentId p = pid"
  unfolding findOne_def by (induction ps) (auto split: if_splits)

lemma findOne_save_payment:
  "findOne pid ps = Some p \<Longrightarrow> payment.paymentId p' = pid \<Longrightarrow> findOne pid (save_payment p' ps) = Some p'"
  unfolding findOne_def by (induction ps) (auto split: if_splits)

subsection \<open>Refund with a falsy amount\<close>

text \<open>
  Claim C10. For a payment whose status is \<open>completed\<close>, a refund request whose amount
  is omitted or zero (the falsy values of a Number) refunds the full original amount:
  the handler answers 200 and the stored payment is \<open>refunded\<close> with \<open>refundAmount\<close>
  equal to the payment's \<open>amount\<close>.
\<close>

theorem refund_falsy_amount_is_full_refund:
  assumes "db_ok e" and "findOne pid (payments s) = Some p"
    and "payment.status p = ''completed''" and "\<not> truthy_num (r_amount r)"
  shows "fst (refund e pid r s) =
           Response 200 True ''Refund processed successfully''
             (Some (RefundData pid (amount p) ''refunded''))
       \<and> findOne pid (payments (snd (refund e pid r s))) =
           Some (p\<lparr> payment.status := ''refunded'', refundAmount := Some (amount p),
                    refundReason := r_reason r, refundedAt := Some (now e),
                    payment.updatedAt := now e \<rparr>)"
proof -
  have a: "refund_amount (r_amount r) p = amount p"
    using assms(4) by (simp add: refund_amount_def truthy_num_def split: option.splits)
  have i: "payment.paymentId p = pid"
    using assms(2) by (rule findOne_paymentId)
  show ?thesis
    using assms(1-3) a i by (simp add: refund_def Let_def findOne_save_payment)
qed

theorem refund_falsy_amount_is_full_refund_witness:
  "db_ok env0 \<and> findOne ''pay_1'' (payments st0) = Some pay0
   \<and> payment.status pay0 = ''completed''
   \<and> \<not> truthy_num (r_amount \<lparr>r_reason = Some ''damaged'', r_amount = Some 0\<rparr>)
   \<and> map refundAmount (payments (snd (refund env0 ''pay_1''
         \<lparr>r_reason = Some ''damaged'', r_amount = Some 0\<rparr> st0))) = [Some 100]"
proof -
  have h: "db_ok env0" "findOne ''pay_1'' (payments st0) = Some pay0"
    "payment.status pay0 = ''completed''"
    "\<not> truthy_num (r_amount \<lparr>r_reason = Some ''damaged'', r_amount = Some 0\<rparr>)"
    by (simp_all add: env0_def st0_def pay0_def findOne_def truthy_num_def)
  from refund_falsy_amount_is_full_refund [OF h]
  have "findOne ''pay_1'' (payments (snd (refund env0 ''pay_1''
         \<lparr>r_reason = Some ''damaged'', r_amount = Some 0\<rparr> st0))) =
        Some (pay0\<lparr> payment.status := ''refunded'', refundAmount := Some (amount pay0),
                    refundReason := Some ''damaged'', refundedAt := Some (now env0),
                    payment.updatedAt := now env0 \<rparr>)"
    by simp
  then show ?thesis
    using h by (simp add: refund_def env0_def st0_def pay0_def findOne_def refund_amount_def)
qed

subsection \<open>When a refund is accepted\<close>

lemma refund_code:
  "db_ok e \<Longrightarrow> code (fst (refund e pid r s)) =
     (case findOne pid (payments s) of None \<Rightarrow> 404
      | Some p \<Rightarrow> if payment.status p = ''completed'' then 200 else 400)"
  by (simp add: refund_def Let_def split: option.splits)

lemma refund_rejected_unchanged:
  "db_ok e \<Longrightarrow> code (fst (refund e pid r s)) \<noteq> 200 \<Longrightarrow> snd (refund e pid r s) = s"
  by (simp add: refund_def Let_def split: option.splits if_splits)

text \<open>
  Claim C9, as stated: a refund succeeds only when the payment is \<open>completed\<close> and the
  requested amount is at most the original amount. The handler never compares the two
  amounts: a refund of 500 on a completed payment of 100 is accepted and stored.
\<close>

theorem refund_ignores_amount_bound_counterexample:
  "payment.status pay0 = ''completed'' \<and> amount pay0 = 100
   \<and> fst (refund env0 ''pay_1'' \<lparr>r_reason = None, r_amount = Some 500\<rparr> st0) =
       Response 200 True ''Refund processed successfully''
         (Some (RefundData ''pay_1'' 500 ''refunded''))
   \<and> map refundAmount (payments (snd (refund env0 ''pay_1''
         \<lparr>r_reason = None, r_amount = Some 500\<rparr> st0))) = [Some 500]"
  by (simp add: refund_def env0_def st0_def pay0_def findOne_def refund_amount_def)

text \<open>
  Claim C9, amended. While the database answers, a refund is accepted (200) exactly
  when the payment exists and its status is \<open>completed\<close>, whatever amount is requested;
  it is rejected with 400 exactly when the payment exists in another status and with
  404 exactly when there is no such payment, and every rejected call leaves the
  state as it was.
\<close>

theorem refund_succeeds_iff_completed:
  assumes "db_ok e"
  shows "(code (fst (refund e pid r s)) = 200) =
           (\<exists>p. findOne pid (payments s) = Some p \<and> payment.status p = ''completed'')
       \<and> (code (fst (refund e pid r s)) = 400) =
           (\<exists>p. findOne pid (payments s) = Some p \<and> payment.status p \<noteq> ''completed'')
       \<and> (code (fst (refund e pid r s)) = 404) = (findOne pid (payments s) = None)
       \<and> (code (fst (refund e pid r s)) = 200 \<or> snd (refund e pid r s) = s)"
  using refund_code [OF assms, of pid r s] refund_rejected_unchanged [OF assms, of pid r s]
  by (auto split: option.splits if_splits)

theorem refund_succeeds_iff_completed_witness:
  "db_ok env0
   \<and> code (fst (refund env0 ''pay_1'' \<lparr>r_reason = None, r_amount = Some 500\<rparr> st0)) = 200
   \<and> code (fst (refund env0 ''pay_1'' \<lparr>r_reason = None, r_amount = Some 50\<rparr> st1)) = 400
   \<and> snd (refund env0 ''pay_1'' \<lparr>r_reason = None, r_amount = Some 50\<rparr> st1) = st1"
proof -
  have h: "db_ok env0" by (simp add: env0_def)
  have a: "findOne ''pay_1'' (payments st0) = Some pay0" "payment.status pay0 = ''completed''"
    by (simp_all add: st0_def pay0_def findOne_def)
  have b: "findOne ''pay_1'' (payments st1) = Some pay1" "payment.status pay1 \<noteq> ''completed''"
    by (simp_all add: st1_def pay1_def pay0_def findOne_def)
  show ?thesis
    using h a b
      refund_succeeds_iff_completed [OF h, of "''pay_1''" "\<lparr>r_reason = None, r_amount = Some 500\<rparr>" st0]
      refund_succeeds_iff_completed [OF h, of "''pay_1''" "\<lparr>r_reason = None, r_amount = Some 50\<rparr>" st1]
    by auto
qed

subsection \<open>Confirming a payment\<close>

text \<open>
  Claim C1, as stated: a payment that is \<open>completed\<close> never becomes \<open>completed\<close> again,
  and a second \<open>confirm\<close> with the same gateway evidence changes nothing. The handler
  reads no status and keeps no record of the evidence it has seen: on a completed
  payment a losing draw stores \<open>failed\<close>, and two winning calls with the same evidence
  complete the payment twice, each with its own log line and transaction id.
\<close>

theorem confirm_not_idempotent_counterexample:
  "payment.status pay0 = ''completed''
   \<and> map payment.status (payments (snd (confirm env1 confirm0 st0))) = [''failed'']
   \<and> map payment.status (payments (snd (confirm env0 confirm0 st1))) = [''completed'']
   \<and> console (snd (confirm env0 confirm0 (snd (confirm env0 confirm0 st1)))) =
       [''Payment completed: pay_1'', ''Payment completed: pay_1'']
   \<and> snd (confirm env0 confirm0 (snd (confirm env0 confirm0 st1))) \<noteq> snd (confirm env0 confirm0 st1)"
  by (simp add: confirm_def isSuccess_def env0_def env1_def confirm0_def st0_def st1_def
      pay0_def pay1_def findOne_def Let_def)

text \<open>
  Claim C1, amended. While the database answers, \<open>confirm\<close> on an existing payment
  answers 200 and stores the status the draw decides, \<open>completed\<close> or \<open>failed\<close>,
  whatever the status was before, with a fresh transaction id and one more log line;
  a repeated call with the same evidence is processed like the first. On an unknown
  payment id it answers 404 and changes nothing.
\<close>

theorem confirm_overwrites_status:
  assumes "db_ok e"
  shows "case findOne (c_paymentId r) (payments s) of
           None \<Rightarrow> confirm e r s = (Response 404 False ''Payment not found'' None, s)
         | Some p \<Rightarrow>
             code (fst (confirm e r s)) = 200
             \<and> success (fst (confirm e r s)) = isSuccess e
             \<and> map_option payment.status (findOne (c_paymentId r) (payments (snd (confirm e r s))))
                 = Some (if isSuccess e then ''completed'' else ''failed'')
             \<and> map_option (map_option transactionId \<circ> gatewayResponse)
                   (findOne (c_paymentId r) (payments (snd (confirm e r s))))
                 = Some (Some (''txn_'' @ uuid_a e))
             \<and> console (snd (confirm e r s)) = console s @
                 [''Payment '' @ (if isSuccess e then ''completed'' else ''failed'') @ '': ''
                    @ c_paymentId r]"
proof (cases "findOne (c_paymentId r) (payments s)")
  case None
  then show ?thesis using assms by (simp add: confirm_def)
next
  case (Some p)
  have i: "payment.paymentId p = c_paymentId r"
    using Some by (rule findOne_paymentId)
  show ?thesis
    using assms Some i by (simp add: confirm_def Let_def findOne_save_payment)
qed

theorem confirm_overwrites_status_witness:
  "db_ok env1 \<and> findOne (c_paymentId confirm0) (payments st0) = Some pay0
   \<and> payment.status pay0 = ''completed'' \<and> \<not> isSuccess env1
   \<and> map_option payment.status
        (findOne (c_paymentId confirm0) (payments (snd (confirm env1 confirm0 st0)))) = Some ''failed''"
proof -
  have h: "db_ok env1" by (simp add: env1_def env0_def)
  have f: "findOne (c_paymentId confirm0) (payments st0) = Some pay0"
    by (simp add: confirm0_def st0_def pay0_def findOne_def)
  have n: "\<not> isSuccess env1" by (simp add: isSuccess_def env1_def env0_def)
  show ?thesis
    using h f n confirm_overwrites_status [OF h, of confirm0 st0]
    by (simp add: pay0_def)
qed

subsection \<open>Initiating a payment\<close>

text \<open>
  Claim C5, as stated: a repeated \<open>initiate\<close> for an order that already has a payment
  in a non-terminal status returns that payment and creates no second one. The
  handler never looks a payment up by \<open>orderId\<close>: the second call for \<open>ord_1\<close> answers
  201 with a new payment id, and the collection then holds two \<open>initiated\<close> payments
  for the order.
\<close>

theorem initiate_duplicates_counterexample:
  "map orderId (payments (snd (initiate env0 init0 \<lparr>payments = [], console = []\<rparr>))) = [''ord_1'']
   \<and> map payment.status (payments (snd (initiate env0 init0 \<lparr>payments = [], console = []\<rparr>)))
       = [''initiated'']
   \<and> map orderId (payments (snd (initiate env1 init0
          (snd (initiate env0 init0 \<lparr>payments = [], console = []\<rparr>))))) = [''ord_1'', ''ord_1'']
   \<and> map payment.paymentId (payments (snd (initiate env1 init0
          (snd (initiate env0 init0 \<lparr>payments = [], console = []\<rparr>))))) = [''pay_3f2a77'', ''pay_5b8e21'']
   \<and> code (fst (initiate env1 init0 (snd (initiate env0 init0 \<lparr>payments = [], console = []\<rparr>)))) = 201"
  by (simp add: initiate_def new_payment_def or_str_def truthy_str_def method_enum_def
      env0_def env1_def init0_def findOne_def Let_def)

text \<open>
  Claim C5, amended. While the database answers, every \<open>initiate\<close> call whose body
  passes the schema (an order id, a user id, an amount, a method of the enum) and
  whose generated payment id is fresh answers 201 and appends one new payment, with
  status \<open>initiated\<close> and the generated id, to the collection, whether or not the order
  already has a payment: the number of payments of that order grows by one.
\<close>

theorem initiate_always_creates:
  assumes "db_ok e" and "i_orderId r = Some oid" and "oid \<noteq> []"
    and "truthy_str (or_str (i_userId r) (i_x_user_id r))"
    and "i_amount r = Some a" and "i_method r = Some m" and "m \<in> set method_enum"
    and "findOne (''pay_'' @ filter (\<lambda>c. c \<noteq> CHR ''-'') (uuid_a e)) (payments s) = None"
  shows "code (fst (initiate e r s)) = 201
       \<and> map payment.paymentId (payments (snd (initiate e r s))) =
           map payment.paymentId (payments s) @ [''pay_'' @ filter (\<lambda>c. c \<noteq> CHR ''-'') (uuid_a e)]
       \<and> map orderId (payments (snd (initiate e r s))) = map orderId (payments s) @ [oid]
       \<and> map payment.status (payments (snd (initiate e r s))) =
           map payment.status (payments s) @ [''initiated'']
       \<and> length (filter (\<lambda>q. orderId q = oid) (payments (snd (initiate e r s)))) =
           Suc (length (filter (\<lambda>q. orderId q = oid) (payments s)))"
proof -
  obtain u where u: "or_str (i_userId r) (i_x_user_id r) = Some u" "u \<noteq> []"
    using assms(4) by (auto simp: truthy_str_def split: option.splits)
  show ?thesis
    using assms u by (simp add: initiate_def new_payment_def Let_def)
qed

theorem initiate_always_creates_witness:
  "db_ok env1 \<and> i_orderId init0 = Some ''ord_1''
   \<and> payment.status pay1 = ''initiated'' \<and> orderId pay1 = ''ord_1''
   \<and> map orderId (payments (snd (initiate env1 init0 st1))) = [''ord_1'', ''ord_1'']
   \<and> length (filter (\<lambda>q. orderId q = ''ord_1'') (payments (snd (initiate env1 init0 st1)))) = 2"
proof -
  have h: "db_ok env1" "i_orderId init0 = Some ''ord_1''" "''ord_1'' \<noteq> []"
    "truthy_str (or_str (i_userId init0) (i_x_user_id init0))"
    "i_amount init0 = Some 100" "i_method init0 = Some ''card''" "''card'' \<in> set method_enum"
    "findOne (''pay_'' @ filter (\<lambda>c. c \<noteq> CHR ''-'') (uuid_a env1)) (payments st1) = None"
    by (simp_all add: env1_def env0_def init0_def or_str_def truthy_str_def method_enum_def
        st1_def pay1_def pay0_def findOne_def)
  show ?thesis
    using h initiate_always_creates [OF h]
    by (simp add: st1_def pay1_def pay0_def)
qed

section \<open>Properties of the order service\<close>

lemma findById_oid: "findById i os = Some x \<Longrightarrow> order_oid x = i"
  unfolding findById_def by (induction os) (auto split: if_splits)

lemma findById_save_order:
  "findById i os = Some x \<Longrightarrow> order_oid x' = i \<Longrightarrow> findById i (save_order x' os) = Some x'"
  unfolding findById_def by (induction os) (auto split: if_splits)

lemma map_save_order:
  "findById i os = Some x \<Longrightarrow> order_oid x' = i \<Longrightarrow> f x' = f x
   \<Longrightarrow> map f (save_order x' os) = map f os"
  unfolding findById_def by (induction os) (auto split: if_splits)

text \<open>Neither a status update nor a cancellation writes the \<open>totalAmount\<close> of an order.\<close>

lemma update_status_totalAmount:
  "map totalAmount (orders (snd (update_status e rid sr s))) = map totalAmount (orders s)"
proof -
  have "\<And>i x. findById i (orders s) = Some x \<Longrightarrow>
          map totalAmount (save_order (apply_updateData e sr x) (orders s)) = map totalAmount (orders s)"
    by (rule map_save_order) (simp_all add: apply_updateData_def findById_oid)
  then show ?thesis
    by (simp add: update_status_def Let_def split: option.splits route_id.splits)
qed

lemma cancel_order_totalAmount:
  "map totalAmount (orders (snd (cancel_order e rid reason s))) = map totalAmount (orders s)"
proof -
  have "\<And>i x. findById i (orders s) = Some x \<Longrightarrow>
          map totalAmount (save_order (x\<lparr> order.status := ''Cancelled'', cancelledAt := Some (now e),
               cancellationReason := reason, order.updatedAt := now e \<rparr>) (orders s))
          = map totalAmount (orders s)"
    by (rule map_save_order) (simp_all add: findById_oid)
  then show ?thesis
    by (simp add: cancel_order_def Let_def split: option.splits route_id.splits)
qed

lemma decimal_50: "decimal 50 = ''50''"
  by (simp add: decimal.simps [of 50] decimal.simps [of 5] digit_char_def)

lemma decimal_36: "decimal 36 = ''36''"
  by (simp add: decimal.simps [of 36] decimal.simps [of 3] digit_char_def)

lemma decimal_0: "decimal 0 = ''0''"
  by (simp add: decimal.simps [of 0] digit_char_def)

lemma totals_empty:
  "calc_subtotal e [] = Num 0" "calc_shippingCost e (Num 0) = 50" "calc_tax e (Num 0) = Num 0"
  "calc_totalAmount e (Num 0) = Num 50"
  by (simp_all add: calc_subtotal_def calc_shippingCost_def calc_tax_def calc_totalAmount_def
      to_number_def js_plus_def is_string_def math_round_def)

lemma create0_result:
  "create_order env0 create0 ost_empty =
     (Response 201 True ''Order placed successfully'' (Some created0),
      \<lparr>orders = [created0], log = [''Order created: ECO-1000-K3X9QZ'']\<rparr>)"
  by (simp add: create_order_def new_order_def env0_def create0_def body_item0_def item0_def
      or_str_def truthy_str_def cast_items_def cast_item_def cast_number_def valid_address_def
      default_country_def paymentMethod_enum_def calc_subtotal_def calc_shippingCost_def
      calc_tax_def calc_totalAmount_def to_number_def js_plus_def is_string_def math_round_def
      findById_def Let_def ost_empty_def created0_def)

lemma create_order_code: "code (fst (create_order e r s)) = 201 \<or> code (fst (create_order e r s)) = 500"
  by (simp add: create_order_def Let_def split: option.splits)

subsection \<open>Totals of a created order\<close>

text \<open>
  When every item's subtotal arrives as a number, the handler's operators add, and in
  the exact arithmetic of the model a created order stores the sum of the subtotals
  and a \<open>totalAmount\<close> of subtotal - discount + tax + shipping.
\<close>

lemma calc_subtotal_numbers:
  "foldl (\<lambda>sum item. js_plus e sum (b_subtotal item)) (Num a) its
     = Num (a + sum_list vs)" if "map b_subtotal its = map Num vs"
  using that
proof (induction its arbitrary: a vs)
  case Nil
  then show ?case by simp
next
  case (Cons b its)
  then obtain v ws where vs: "vs = v # ws" "b_subtotal b = Num v" "map b_subtotal its = map Num ws"
    by (cases vs) auto
  have "js_plus e (Num a) (Num v) = Num (a + v)"
    by (simp add: js_plus_def is_string_def to_number_def)
  then show ?case
    using Cons.IH [OF vs(3), of "a + v"] vs by (simp add: add.assoc)
qed

lemma create_order_number_subtotals:
  assumes "payload (fst (create_order e r s)) = Some x" and "q_items r = Some its"
    and "map b_subtotal its = map Num vs"
  shows "order.subtotal x = sum_list vs
       \<and> totalAmount x = order.subtotal x - order.discount x + tax x + shippingCost x"
proof -
  have c: "calc_subtotal e its = Num (sum_list vs)"
    using calc_subtotal_numbers [OF assms(3), of e 0] by (simp add: calc_subtotal_def)
  have "new_order e r its = Some x"
    using assms(1,2) by (auto simp: create_order_def Let_def split: option.splits if_splits)
  then show ?thesis
    using c
    by (auto simp: new_order_def Let_def cast_number_def calc_tax_def calc_totalAmount_def
        calc_shippingCost_def to_number_def js_plus_def is_string_def
        split: option.splits if_splits)
qed

text \<open>
  Claim C4. The stored \<open>totalAmount\<close> of a created order equals subtotal - discount +
  tax + shipping, with the subtotal the sum of the items' subtotals. The handler does
  not keep this when a subtotal arrives as a numeric string, which the Number schema
  accepts: for one item with subtotal \<open>"200"\<close> the reduce gives the string \<open>"0200"\<close>,
  shipping is 50 and tax 36, and \<open>subtotal + shippingCost + tax\<close> is the string
  \<open>"02005036"\<close>. The order is answered with 201 and stored with subtotal 200, shipping
  50, tax 36, discount 0 and totalAmount 2005036, where the relation gives 286.
\<close>

theorem create_order_string_subtotal:
  "q_items create_str = Some [body_item0\<lparr> b_subtotal := Str ''200'' \<rparr>]
   \<and> create_order env0 create_str ost_empty =
       (Response 201 True ''Order placed successfully'' (Some (created0\<lparr> totalAmount := 2005036 \<rparr>)),
        \<lparr>orders = [created0\<lparr> totalAmount := 2005036 \<rparr>],
         log = [''Order created: ECO-1000-K3X9QZ'']\<rparr>)
   \<and> order.subtotal created0 = 200 \<and> order.discount created0 = 0 \<and> tax created0 = 36
   \<and> shippingCost created0 = 50
   \<and> order.subtotal created0 - order.discount created0 + tax created0 + shippingCost created0 = 286"
  by (simp add: create_order_def new_order_def env0_def create0_def create_str_def body_item0_def
      item0_def or_str_def truthy_str_def cast_items_def cast_item_def cast_number_def
      valid_address_def default_country_def paymentMethod_enum_def calc_subtotal_def
      calc_shippingCost_def calc_tax_def calc_totalAmount_def to_number_def to_string_def
      string_to_number_def number_to_string_def is_digit_def decimal_value_def digit_value_def
      decimal_0 decimal_50 decimal_36 js_plus_def is_string_def math_round_def
      findById_def Let_def ost_empty_def created0_def)

theorem create_order_string_subtotal_witness:
  "code (fst (create_order env0 create_str ost_empty)) = 201
   \<and> map order.subtotal (orders (snd (create_order env0 create_str ost_empty))) = [200]
   \<and> map shippingCost (orders (snd (create_order env0 create_str ost_empty))) = [50]
   \<and> map tax (orders (snd (create_order env0 create_str ost_empty))) = [36]
   \<and> map order.discount (orders (snd (create_order env0 create_str ost_empty))) = [0]
   \<and> map totalAmount (orders (snd (create_order env0 create_str ost_empty))) = [2005036]"
  using create_order_string_subtotal by (simp add: created0_def)

subsection \<open>Creating an order from an empty cart\<close>

text \<open>
  Claim C7, as stated: creating an order from an empty items list fails with a
  validation error (400) and creates no order. The handler has no such check: an
  empty list gives subtotal 0, shipping 50 and tax 0, and the order is stored and
  answered with 201.
\<close>

theorem create_order_empty_cart_counterexample:
  "q_items create_empty = Some []
   \<and> code (fst (create_order env0 create_empty ost_empty)) = 201
   \<and> map items (orders (snd (create_order env0 create_empty ost_empty))) = [[]]
   \<and> map totalAmount (orders (snd (create_order env0 create_empty ost_empty))) = [50]"
  by (simp add: create_order_def new_order_def env0_def create0_def create_empty_def or_str_def
      truthy_str_def valid_address_def default_country_def paymentMethod_enum_def
      cast_items_def cast_number_def totals_empty findById_def Let_def ost_empty_def)

text \<open>
  Claim C7, amended. While the database answers, order creation from an empty items
  list, with a customer id, addresses that pass the schema, a payment method of the
  enum and fresh generated keys, answers 201 and stores an order with no items,
  subtotal 0, shipping 50, tax 0 and totalAmount 50. The handler never answers 400.
  For the non-empty cart \<open>create0\<close> it answers 201 too.
\<close>

theorem create_order_accepts_empty_cart:
  assumes "db_ok e" and "q_items r = Some []"
    and "truthy_str (or_str (q_customerId r) (q_x_user_id r))"
    and "valid_address (q_shippingAddress r)" and "valid_address (q_billingAddress r)"
    and "(case q_paymentMethod r of None \<Rightarrow> ''cod'' | Some m \<Rightarrow> m) \<in> set paymentMethod_enum"
    and "findById (objectid e) (orders s) = None"
    and "''ECO-'' @ tail e \<notin> set (map orderNumber (orders s))"
  shows "code (fst (create_order e r s)) = 201
       \<and> map items (orders (snd (create_order e r s))) = map items (orders s) @ [[]]
       \<and> map order.subtotal (orders (snd (create_order e r s))) = map order.subtotal (orders s) @ [0]
       \<and> map shippingCost (orders (snd (create_order e r s))) = map shippingCost (orders s) @ [50]
       \<and> map tax (orders (snd (create_order e r s))) = map tax (orders s) @ [0]
       \<and> map totalAmount (orders (snd (create_order e r s))) = map totalAmount (orders s) @ [50]
       \<and> code (fst (create_order e' r' s')) \<noteq> 400
       \<and> code (fst (create_order env0 create0 ost_empty)) = 201
       \<and> q_items create0 = Some [body_item0]"
proof -
  obtain c where c: "or_str (q_customerId r) (q_x_user_id r) = Some c" "c \<noteq> []"
    using assms(3) by (auto simp: truthy_str_def split: option.splits)
  have b: "valid_address (case q_billingAddress r of None \<Rightarrow> q_shippingAddress r | Some b \<Rightarrow> Some b)"
    using assms(4,5) by (cases "q_billingAddress r") simp_all
  have n: "code (fst (create_order e' r' s')) \<noteq> 400"
    using create_order_code [of e' r' s'] by auto
  have k: "code (fst (create_order env0 create0 ost_empty)) = 201" "q_items create0 = Some [body_item0]"
    by (simp add: create0_result) (simp add: create0_def)
  have m: "code (fst (create_order e r s)) = 201
       \<and> map items (orders (snd (create_order e r s))) = map items (orders s) @ [[]]
       \<and> map order.subtotal (orders (snd (create_order e r s))) = map order.subtotal (orders s) @ [0]
       \<and> map shippingCost (orders (snd (create_order e r s))) = map shippingCost (orders s) @ [50]
       \<and> map tax (orders (snd (create_order e r s))) = map tax (orders s) @ [0]
       \<and> map totalAmount (orders (snd (create_order e r s))) = map totalAmount (orders s) @ [50]"
    using assms(1,2,4,6,7,8) c b
    by (simp add: create_order_def new_order_def Let_def cast_items_def cast_number_def totals_empty)
  show ?thesis using m n k by simp
qed

theorem create_order_accepts_empty_cart_witness:
  "db_ok env0 \<and> q_items create_empty = Some []
   \<and> code (fst (create_order env0 create_empty ost0)) = 201
   \<and> map items (orders (snd (create_order env0 create_empty ost0))) = [[item0], []]
   \<and> map totalAmount (orders (snd (create_order env0 create_empty ost0))) = [286, 50]"
proof -
  have h: "db_ok env0" "q_items create_empty = Some []"
    "truthy_str (or_str (q_customerId create_empty) (q_x_user_id create_empty))"
    "valid_address (q_shippingAddress create_empty)" "valid_address (q_billingAddress create_empty)"
    "(case q_paymentMethod create_empty of None \<Rightarrow> ''cod'' | Some m \<Rightarrow> m) \<in> set paymentMethod_enum"
    "findById (objectid env0) (orders ost0) = None"
    "''ECO-'' @ tail env0 \<notin> set (map orderNumber (orders ost0))"
    by (simp_all add: env0_def create_empty_def create0_def or_str_def truthy_str_def
        valid_address_def paymentMethod_enum_def findById_def ost0_def ord0_def)
  show ?thesis
    using h create_order_accepts_empty_cart [OF h]
    by (simp add: ost0_def ord0_def)
qed

subsection \<open>Updating the status of an order\<close>

text \<open>
  Claim C3, as stated: a status update succeeds only for a pair (current, new) of the
  transition table, and anything else is rejected with the status unchanged. The
  handler consults no table: a \<open>Delivered\<close> order is moved back to \<open>Pending\<close> with 200.
\<close>

theorem update_status_no_table_counterexample:
  "map order.status (orders ost0) = [''Delivered'']
   \<and> code (fst (update_status env0 (ObjectId 1) status0 ost0)) = 200
   \<and> map order.status (orders (snd (update_status env0 (ObjectId 1) status0 ost0))) = [''Pending'']"
  by (simp add: update_status_def apply_updateData_def env0_def status0_def
      ost0_def ord0_def findById_def Let_def)

text \<open>
  Claim C3, amended. While the database answers, a status update of an existing order
  to any of the nine statuses of the schema answers 200 and stores the requested
  status, whatever the current status, and keeps the collection's documents in
  place; for an unknown order id it answers 404 and nothing changes. For an id that
  is not an ObjectId it answers 500 and no order changes.
\<close>

theorem update_status_accepts_any:
  assumes "db_ok e" and "s_status r \<in> set order_status_enum"
  shows "(case findById i (orders s) of
           None \<Rightarrow> update_status e (ObjectId i) r s = (Response 404 False ''Order not found'' None, s)
         | Some x \<Rightarrow>
             code (fst (update_status e (ObjectId i) r s)) = 200
             \<and> map_option order.status (findById i (orders (snd (update_status e (ObjectId i) r s))))
                 = Some (s_status r)
             \<and> map order_oid (orders (snd (update_status e (ObjectId i) r s))) = map order_oid (orders s))
       \<and> code (fst (update_status e NotAnObjectId r s)) = 500
       \<and> orders (snd (update_status e NotAnObjectId r s)) = orders s"
proof -
  have n: "code (fst (update_status e NotAnObjectId r s)) = 500
       \<and> orders (snd (update_status e NotAnObjectId r s)) = orders s"
    by (simp add: update_status_def Let_def)
  show ?thesis
  proof (cases "findById i (orders s)")
    case None
    then show ?thesis using assms(1) n by (simp add: update_status_def)
  next
    case (Some x)
    have o: "order_oid (apply_updateData e r x) = i"
      using findById_oid [OF Some] by (simp add: apply_updateData_def)
    have m: "map order_oid (save_order (apply_updateData e r x) (orders s)) = map order_oid (orders s)"
      using Some o by (rule map_save_order) (simp add: apply_updateData_def)
    have "code (fst (update_status e (ObjectId i) r s)) = 200
        \<and> map_option order.status (findById i (orders (snd (update_status e (ObjectId i) r s))))
            = Some (s_status r)
        \<and> map order_oid (orders (snd (update_status e (ObjectId i) r s))) = map order_oid (orders s)"
      using assms(1) Some m findById_save_order [OF Some o]
      by (simp add: update_status_def apply_updateData_def)
    then show ?thesis using Some n by simp
  qed
qed

theorem update_status_accepts_any_witness:
  "db_ok env0 \<and> s_status status0 \<in> set order_status_enum
   \<and> findById 1 (orders ost0) = Some ord0 \<and> order.status ord0 = ''Delivered''
   \<and> s_status status0 = ''Pending''
   \<and> code (fst (update_status env0 (ObjectId 1) status0 ost0)) = 200
   \<and> map_option order.status
        (findById 1 (orders (snd (update_status env0 (ObjectId 1) status0 ost0)))) = Some ''Pending''
   \<and> code (fst (update_status env0 NotAnObjectId status0 ost0)) = 500"
proof -
  have h: "db_ok env0" "s_status status0 \<in> set order_status_enum"
    by (simp_all add: env0_def status0_def order_status_enum_def)
  have f: "findById 1 (orders ost0) = Some ord0" "order.status ord0 = ''Delivered''"
    "s_status status0 = ''Pending''"
    by (simp_all add: ost0_def ord0_def findById_def status0_def)
  show ?thesis
    using h f update_status_accepts_any [OF h, where i = 1 and s = ost0] by simp
qed

subsection \<open>Cancelling an order\<close>

text \<open>
  Claim C6, as stated: a cancel request on an order that is \<open>Shipped\<close>,
  \<open>Out for Delivery\<close>, \<open>Delivered\<close>, \<open>Cancelled\<close> or \<open>Refunded\<close> is rejected and changes
  nothing. The handler's list holds the first three only: a \<open>Refunded\<close> order becomes
  \<open>Cancelled\<close>, and a second cancellation of a \<open>Cancelled\<close> order is accepted and
  overwrites its reason and time.
\<close>

theorem cancel_order_guard_counterexample:
  "map order.status (orders ost1) = [''Refunded'']
   \<and> code (fst (cancel_order env0 (ObjectId 1) (Some ''again'') ost1)) = 200
   \<and> map order.status (orders (snd (cancel_order env0 (ObjectId 1) (Some ''again'') ost1))) = [''Cancelled'']
   \<and> map order.status (orders ost2) = [''Cancelled'']
   \<and> map cancellationReason (orders ost2) = [Some ''changed my mind'']
   \<and> code (fst (cancel_order env0 (ObjectId 1) (Some ''again'') ost2)) = 200
   \<and> map cancellationReason (orders (snd (cancel_order env0 (ObjectId 1) (Some ''again'') ost2)))
       = [Some ''again'']
   \<and> map cancelledAt (orders (snd (cancel_order env0 (ObjectId 1) (Some ''again'') ost2))) = [Some 1000]"
  by (simp add: cancel_order_def not_cancellable_def env0_def ost1_def ord1_def ost2_def ord2_def
      ord0_def findById_def Let_def)

text \<open>
  Claim C6, amended. While the database answers, a cancel request on an existing order
  whose status is \<open>Shipped\<close>, \<open>Out for Delivery\<close> or \<open>Delivered\<close> is rejected with 400
  and nothing changes; on an order in any other status, \<open>Cancelled\<close> and \<open>Refunded\<close>
  included, it answers 200 and stores the order as \<open>Cancelled\<close> with the time and the
  reason of this request.
\<close>

theorem cancel_order_guard:
  assumes "db_ok e" and "findById i (orders s) = Some x"
  shows "if order.status x = ''Shipped'' \<or> order.status x = ''Out for Delivery''
            \<or> order.status x = ''Delivered''
         then cancel_order e (ObjectId i) reason s =
                (Response 400 False ''Order cannot be cancelled at this stage'' None, s)
         else code (fst (cancel_order e (ObjectId i) reason s)) = 200
              \<and> findById i (orders (snd (cancel_order e (ObjectId i) reason s))) =
                  Some (x\<lparr> order.status := ''Cancelled'', cancelledAt := Some (now e),
                           cancellationReason := reason, order.updatedAt := now e \<rparr>)"
proof -
  have o: "order_oid (x\<lparr> order.status := ''Cancelled'', cancelledAt := Some (now e),
             cancellationReason := reason, order.updatedAt := now e \<rparr>) = i"
    using findById_oid [OF assms(2)] by simp
  show ?thesis
    using assms findById_save_order [OF assms(2) o]
    by (simp add: cancel_order_def not_cancellable_def Let_def)
qed

theorem cancel_order_guard_witness:
  "db_ok env0 \<and> findById 1 (orders ost0) = Some ord0 \<and> order.status ord0 = ''Delivered''
   \<and> cancel_order env0 (ObjectId 1) None ost0 =
       (Response 400 False ''Order cannot be cancelled at this stage'' None, ost0)
   \<and> findById 1 (orders ost1) = Some ord1 \<and> order.status ord1 = ''Refunded''
   \<and> code (fst (cancel_order env0 (ObjectId 1) None ost1)) = 200
   \<and> map_option order.status (findById 1 (orders (snd (cancel_order env0 (ObjectId 1) None ost1))))
       = Some ''Cancelled''"
proof -
  have h: "db_ok env0" by (simp add: env0_def)
  have a: "findById 1 (orders ost0) = Some ord0" "order.status ord0 = ''Delivered''"
    by (simp_all add: ost0_def ord0_def findById_def)
  have b: "findById 1 (orders ost1) = Some ord1" "order.status ord1 = ''Refunded''"
    by (simp_all add: ost1_def ord1_def ord0_def findById_def)
  show ?thesis
    using h a b cancel_order_guard [OF h a(1), where reason = None]
      cancel_order_guard [OF h b(1), where reason = None]
    by simp
qed


section \<open>Properties of the message consumer\<close>

lemma deliver_failing:
  assumes "ready ch = m # ms" and "\<forall>h c. content m = Some c \<longrightarrow> \<not> fst (handler h c)"
  shows "snd (deliver handler (h, ch)) =
           ch\<lparr>ready := m\<lparr>redelivered := True\<rparr> # ms, delivered := delivered ch @ [tag m]\<rparr>"
proof (cases "content m")
  case None
  then show ?thesis using assms(1) by (simp add: deliver_def on_message_def nack_def)
next
  case (Some c)
  then have "\<not> fst (handler h c)" using assms(2) by simp
  then obtain h' where "handler h c = (False, h')"
    by (cases "handler h c") simp
  then show ?thesis
    using assms(1) Some
    by (simp add: deliver_def on_message_def nack_def)
qed

lemma deliveries_failing:
  "ready ch = m # ms \<Longrightarrow> (\<forall>h c. content m = Some c \<longrightarrow> \<not> fst (handler h c)) \<Longrightarrow>
   snd (deliveries n handler (h, ch)) =
     (if n = 0 then ch
      else ch\<lparr>ready := m\<lparr>redelivered := True\<rparr> # ms,
              delivered := delivered ch @ replicate n (tag m)\<rparr>)"
proof (induction n arbitrary: h ch m)
  case 0
  show ?case by simp
next
  case (Suc n)
  define m' where "m' = m\<lparr>redelivered := True\<rparr>"
  define ch' where "ch' = ch\<lparr>ready := m' # ms, delivered := delivered ch @ [tag m]\<rparr>"
  obtain h' where d: "deliver handler (h, ch) = (h', ch')"
    using deliver_failing [OF Suc.prems, of h]
    by (cases "deliver handler (h, ch)") (simp add: ch'_def m'_def)
  have r: "ready ch' = m' # ms" by (simp add: ch'_def)
  have t: "\<forall>h c. content m' = Some c \<longrightarrow> \<not> fst (handler h c)"
    using Suc.prems(2) by (simp add: m'_def)
  have "snd (deliveries n handler (h', ch')) =
          (if n = 0 then ch'
           else ch'\<lparr>ready := m'\<lparr>redelivered := True\<rparr> # ms,
                    delivered := delivered ch' @ replicate n (tag m')\<rparr>)"
    using r t by (rule Suc.IH)
  then show ?case
    using d by (simp add: ch'_def m'_def)
qed

text \<open>
  Claim C8, as stated: a message whose handler throws is redelivered at most once and
  then dead-lettered, never requeued indefinitely. The callback answers every failure
  with \<open>nack(msg, false, true)\<close>: after three deliveries of a message whose handler
  throws, the message has been delivered three times, nothing has been rejected to a
  dead-letter exchange, and the message is on the queue again.
\<close>

theorem failing_message_redelivered_counterexample:
  "fst (failing_handler () ''order.created'') = False
   \<and> delivered (snd (deliveries (Suc (Suc (Suc 0))) failing_handler ((), chan0))) = [1, 1, 1]
   \<and> rejected (snd (deliveries (Suc (Suc (Suc 0))) failing_handler ((), chan0))) = []
   \<and> ready (snd (deliveries (Suc (Suc (Suc 0))) failing_handler ((), chan0))) =
       [msg0\<lparr>redelivered := True\<rparr>]"
  by (simp add: deliver_def on_message_def nack_def failing_handler_def chan0_def msg0_def)

text \<open>
  Claim C8, amended. For a message at the head of the queue whose handler throws
  whenever it is given the message (or whose content is not JSON), every delivery
  ends with the message back at the head of the queue, marked redelivered: after
  any number \<open>n + 1\<close> of deliveries it has been delivered \<open>n + 1\<close> times, it has been
  neither acknowledged nor rejected (so neither dead-lettered nor dropped), and it is
  ready for the next delivery.
\<close>

theorem failing_message_requeued_every_time:
  assumes "ready ch = m # ms"
    and "\<forall>h c. content m = Some c \<longrightarrow> \<not> fst (handler h c)"
  shows "ready (snd (deliveries (Suc n) handler (h, ch))) = m\<lparr>redelivered := True\<rparr> # ms
       \<and> delivered (snd (deliveries (Suc n) handler (h, ch))) =
           delivered ch @ replicate (Suc n) (tag m)
       \<and> rejected (snd (deliveries (Suc n) handler (h, ch))) = rejected ch
       \<and> acked (snd (deliveries (Suc n) handler (h, ch))) = acked ch"
  using deliveries_failing [OF assms, of "Suc n" h] by simp

theorem failing_message_requeued_every_time_witness:
  "ready chan0 = [msg0]
   \<and> content msg0 = Some ''order.created'' \<and> \<not> fst (failing_handler () ''order.created'')
   \<and> delivered (snd (deliveries (Suc 4) failing_handler ((), chan0))) = [1, 1, 1, 1, 1]
   \<and> rejected (snd (deliveries (Suc 4) failing_handler ((), chan0))) = []
   \<and> ready (snd (deliveries (Suc 4) failing_handler ((), chan0))) = [msg0\<lparr>redelivered := True\<rparr>]"
proof -
  have h: "ready chan0 = msg0 # []"
    "\<forall>h c. content msg0 = Some c \<longrightarrow> \<not> fst (failing_handler h c)"
    by (simp_all add: chan0_def failing_handler_def)
  have t: "tag msg0 = 1" "delivered chan0 = []" "rejected chan0 = []"
    "content msg0 = Some ''order.created''" "\<not> fst (failing_handler () ''order.created'')"
    by (simp_all add: msg0_def chan0_def failing_handler_def)
  show ?thesis
    using h t failing_message_requeued_every_time [OF h, of 4 "()"]
    by (simp add: numeral_eq_Suc)
qed


section \<open>Properties of the inventory update\<close>

text \<open>
  Claim C2. The quantity of a product is never negative, and a decrement larger than
  the stock is rejected with the quantity unchanged. \<open>updateInventory\<close> does not keep
  this: on a product with quantity 3, a decrement of 5 answers 200 and stores the
  quantity -2, which the schema's own validator (\<open>min: 0\<close>) refuses.
\<close>

theorem updateInventory_decrement_below_zero:
  "product_doc.quantity prod0 = 3 \<and> quantity_min (product_doc.quantity prod0)
   \<and> updateInventory env0 (ObjectId 4) \<lparr>u_quantity = 5, u_operation = Some ''decrement''\<rparr> pst0 =
       (Response 200 True ''Inventory updated'' (Some (InventoryData (- 2) ''In Stock'')),
        \<lparr>products = [prod0\<lparr>product_doc.quantity := - 2\<rparr>], published = []\<rparr>)
   \<and> \<not> quantity_min (- 2)"
  by (simp add: updateInventory_def apply_update_def find_product_def env0_def pst0_def prod0_def
      quantity_min_def publishEvent_def Let_def)

end
